theory Spec2Isabelle
  imports Main
begin

section \<open>The civil calendar and clock of Python's \<open>datetime\<close>\<close>

text \<open>
  The entity works with three standard-library types: \<open>datetime.time\<close> (a time of
  day), \<open>datetime.datetime\<close> (a date with a time of day) and the \<open>timedelta\<close> that
  subtracting two datetimes gives. All datetimes of one call carry the same time zone
  object (\<open>downloader.CEZ_TIMEZONE\<close>), and for such operands Python compares and
  subtracts the civil fields, so the zone is not part of the model.
\<close>

record date =
  year :: nat
  month :: nat
  day :: nat

record time =
  hour :: nat
  minute :: nat
  second :: nat
  microsecond :: nat

record datetime =
  dt_date :: date
  dt_time :: time

datatype py_error = KeyError | TypeError | ValueError | OtherException

text \<open>
  The calendar functions of the module \<open>datetime\<close>. The two tables are read at the
  months 1 to 12 of a valid date only.
\<close>

definition is_leap :: "nat \<Rightarrow> bool" where
  "is_leap y = (y mod 4 = 0 \<and> (y mod 100 \<noteq> 0 \<or> y mod 400 = 0))"

definition days_in_month :: "nat \<Rightarrow> nat \<Rightarrow> nat" where
  "days_in_month y m =
     (if m = 2 \<and> is_leap y then 29
      else [0, 31, 28, 31, 30, 31, 30, 31, 31, 30, 31, 30, 31] ! m)"

definition days_before_year :: "nat \<Rightarrow> int" where
  "days_before_year y =
     (let y1 = int y - 1 in y1 * 365 + y1 div 4 - y1 div 100 + y1 div 400)"

definition days_before_month :: "nat \<Rightarrow> nat \<Rightarrow> int" where
  "days_before_month y m =
     [0, 0, 31, 59, 90, 120, 151, 181, 212, 243, 273, 304, 334] ! m
       + (if m > 2 \<and> is_leap y then 1 else 0)"

definition toordinal :: "date \<Rightarrow> int" where
  "toordinal d = days_before_year (year d) + days_before_month (year d) (month d) + int (day d)"

definition valid_date :: "date \<Rightarrow> bool" where
  "valid_date d =
     (1 \<le> year d \<and> year d \<le> 9999 \<and> 1 \<le> month d \<and> month d \<le> 12
      \<and> 1 \<le> day d \<and> day d \<le> days_in_month (year d) (month d))"

definition valid_time :: "time \<Rightarrow> bool" where
  "valid_time t = (hour t < 24 \<and> minute t < 60 \<and> second t < 60 \<and> microsecond t < 1000000)"

definition valid_datetime :: "datetime \<Rightarrow> bool" where
  "valid_datetime dt = (valid_date (dt_date dt) \<and> valid_time (dt_time dt))"

text \<open>\<open>datetime.combine(date, time, tzinfo=...)\<close>.\<close>

definition combine :: "date \<Rightarrow> time \<Rightarrow> datetime" where
  "combine d t = \<lparr>dt_date = d, dt_time = t\<rparr>"

text \<open>
  \<open>dt.replace(day=n)\<close> builds a new datetime and checks its fields: a day outside
  \<open>1..days_in_month\<close> raises \<open>ValueError\<close>.
\<close>

definition replace_day :: "datetime \<Rightarrow> nat \<Rightarrow> py_error + datetime" where
  "replace_day dt n =
     (if 1 \<le> n \<and> n \<le> days_in_month (year (dt_date dt)) (month (dt_date dt))
      then Inr (dt\<lparr>dt_date := (dt_date dt)\<lparr>day := n\<rparr>\<rparr>)
      else Inl ValueError)"

text \<open>
  \<open>a <= b\<close> on datetimes compares the tuples (year, month, day, hour, minute, second,
  microsecond) lexicographically.
\<close>

fun lex_le :: "nat list \<Rightarrow> nat list \<Rightarrow> bool" where
  "lex_le [] ys = True"
| "lex_le (x # xs) [] = False"
| "lex_le (x # xs) (y # ys) = (x < y \<or> (x = y \<and> lex_le xs ys))"

definition dt_fields :: "datetime \<Rightarrow> nat list" where
  "dt_fields dt =
     [year (dt_date dt), month (dt_date dt), day (dt_date dt),
      hour (dt_time dt), minute (dt_time dt), second (dt_time dt), microsecond (dt_time dt)]"

definition dt_le :: "datetime \<Rightarrow> datetime \<Rightarrow> bool" where
  "dt_le a b = lex_le (dt_fields a) (dt_fields b)"

text \<open>
  \<open>a - b\<close> is the \<open>timedelta\<close> of (ordinal difference) days, (difference of the
  seconds of the day) seconds and (difference of the microseconds) microseconds. A
  timedelta is modelled by its total number of microseconds.
\<close>

definition day_seconds :: "time \<Rightarrow> int" where
  "day_seconds t = int (second t) + int (minute t) * 60 + int (hour t) * 3600"

definition dt_sub :: "datetime \<Rightarrow> datetime \<Rightarrow> int" where
  "dt_sub a b =
     ((toordinal (dt_date a) - toordinal (dt_date b)) * 86400
        + (day_seconds (dt_time a) - day_seconds (dt_time b))) * 1000000
       + (int (microsecond (dt_time a)) - int (microsecond (dt_time b)))"

text \<open>
  \<open>int(td.total_seconds())\<close>: \<open>total_seconds\<close> divides the microseconds by \<open>10**6\<close>
  as a float and \<open>int\<close> truncates towards zero. For the spans that occur here (below
  two days) the float is within \<open>2e-11\<close> of the exact quotient, while a quotient that is
  not a whole number is at least \<open>1e-6\<close> away from one, so the truncation of the float
  is the truncation of the exact quotient.
\<close>

definition int_total_seconds :: "int \<Rightarrow> int" where
  "int_total_seconds us = (if 0 \<le> us then us div 1000000 else - ((- us) div 1000000))"

text \<open>
  Two measures used to state results: the microseconds of a time of day since
  midnight, and the microseconds from a clock reading to the next occurrence of a time
  of day strictly after it.
\<close>

definition us_of_day :: "time \<Rightarrow> int" where
  "us_of_day t = day_seconds t * 1000000 + int (microsecond t)"

definition us_until_next :: "time \<Rightarrow> datetime \<Rightarrow> int" where
  "us_until_next b now =
     (if us_of_day (dt_time now) < us_of_day b then us_of_day b - us_of_day (dt_time now)
      else 86400000000 + us_of_day b - us_of_day (dt_time now))"

section \<open>The entity (\<open>base_entity.py\<close>)\<close>

text \<open>
  \<open>downloader.isHdo\<close> returns a tuple of eight values; the entity and the sensors read
  it by position. The fields are named as the sensors name them: position 0 is
  \<open>low_tariff_active\<close>, 1 \<open>low_tariff_start\<close>, 2 \<open>low_tariff_end\<close>, 3
  \<open>low_tariff_duration\<close>, and 4 to 7 are the same for the high tariff. Start and end
  are times of day, a duration is a timedelta (in microseconds), and \<open>None\<close> is
  \<open>None\<close>.
\<close>

record hdo_data =
  low_tariff_active :: bool
  low_tariff_start :: "time option"
  low_tariff_end :: "time option"
  low_tariff_duration :: "int option"
  high_tariff_active :: bool
  high_tariff_start :: "time option"
  high_tariff_end :: "time option"
  high_tariff_duration :: "int option"

text \<open>The tuple \<open>False, None, None, None, False, None, None, None\<close>.\<close>

definition no_data :: hdo_data where
  "no_data =
     \<lparr>low_tariff_active = False, low_tariff_start = None, low_tariff_end = None,
      low_tariff_duration = None,
      high_tariff_active = False, high_tariff_start = None, high_tariff_end = None,
      high_tariff_duration = None\<rparr>"

text \<open>
  The attributes \<open>__init__\<close> sets. \<open>'p\<close> is the type of the decoded JSON response.
\<close>

record 'p entity =
  ean :: string
  signal :: "string option"
  entity_name :: string
  response_data :: "'p option"
  last_update_success :: bool
  last_update_time :: "datetime option"

text \<open>Python's truth value of \<open>self.signal\<close>: \<open>None\<close> and the empty string are false.\<close>

definition truthy :: "string option \<Rightarrow> bool" where
  "truthy s = (case s of None \<Rightarrow> False | Some v \<Rightarrow> v \<noteq> [])"

text \<open>
  \<open>_get_hdo_data\<close>. The parser \<open>downloader.isHdo\<close> is a parameter: it gets the
  response, the preferred signal (\<open>None\<close> when the call leaves it out) and the clock it
  reads, and returns the tuple or raises. \<open>KeyError\<close> and \<open>TypeError\<close> are caught;
  any other exception leaves the method.
\<close>

definition get_hdo_data ::
  "('p \<Rightarrow> string option \<Rightarrow> datetime \<Rightarrow> py_error + hdo_data)
     \<Rightarrow> 'p entity \<Rightarrow> datetime \<Rightarrow> py_error + hdo_data" where
  "get_hdo_data parser self clock =
     (if response_data self = None \<or> \<not> last_update_success self then Inr no_data
      else
        (case parser (the (response_data self))
                (if truthy (signal self) then signal self else None) clock of
           Inr result \<Rightarrow> Inr result
         | Inl err \<Rightarrow>
             if err = KeyError \<or> err = TypeError then Inr no_data else Inl err))"

text \<open>
  The four countdown methods end in the same statements (lines 272 to 280, 291 to 299,
  310 to 318 and 329 to 337), on the end or the start of a period: combine it with
  today's date, move it to the next day when it is not after now, subtract, truncate.
\<close>

definition seconds_until :: "time \<Rightarrow> datetime \<Rightarrow> py_error + int" where
  "seconds_until boundary now =
     (let end_today = combine (dt_date now) boundary in
      case (if dt_le end_today now
            then replace_day end_today (day (dt_date end_today) + 1)
            else Inr end_today) of
        Inl err \<Rightarrow> Inl err
      | Inr end_today' \<Rightarrow> Inr (max 0 (int_total_seconds (dt_sub end_today' now))))"

text \<open>
  Each method takes the parser, the entity, the clock the parser reads inside
  \<open>_get_hdo_data\<close> and the clock the method reads after it (\<open>now\<close>). The result is
  \<open>Inr None\<close> for \<open>None\<close>, \<open>Inr (Some n)\<close> for a number and \<open>Inl\<close> for an exception
  that leaves the method.
\<close>

definition get_low_tariff_remaining_seconds ::
  "('p \<Rightarrow> string option \<Rightarrow> datetime \<Rightarrow> py_error + hdo_data)
     \<Rightarrow> 'p entity \<Rightarrow> datetime \<Rightarrow> datetime \<Rightarrow> py_error + int option" where
  "get_low_tariff_remaining_seconds parser self clock now =
     (case get_hdo_data parser self clock of
        Inl err \<Rightarrow> Inl err
      | Inr hdo \<Rightarrow>
          if \<not> low_tariff_active hdo \<or> low_tariff_end hdo = None then Inr None
          else map_sum id Some (seconds_until (the (low_tariff_end hdo)) now))"

definition get_high_tariff_remaining_seconds ::
  "('p \<Rightarrow> string option \<Rightarrow> datetime \<Rightarrow> py_error + hdo_data)
     \<Rightarrow> 'p entity \<Rightarrow> datetime \<Rightarrow> datetime \<Rightarrow> py_error + int option" where
  "get_high_tariff_remaining_seconds parser self clock now =
     (case get_hdo_data parser self clock of
        Inl err \<Rightarrow> Inl err
      | Inr hdo \<Rightarrow>
          if \<not> high_tariff_active hdo \<or> high_tariff_end hdo = None then Inr None
          else map_sum id Some (seconds_until (the (high_tariff_end hdo)) now))"

definition get_next_low_tariff_seconds ::
  "('p \<Rightarrow> string option \<Rightarrow> datetime \<Rightarrow> py_error + hdo_data)
     \<Rightarrow> 'p entity \<Rightarrow> datetime \<Rightarrow> datetime \<Rightarrow> py_error + int option" where
  "get_next_low_tariff_seconds parser self clock now =
     (case get_hdo_data parser self clock of
        Inl err \<Rightarrow> Inl err
      | Inr hdo \<Rightarrow>
          if low_tariff_active hdo \<or> low_tariff_start hdo = None then Inr None
          else map_sum id Some (seconds_until (the (low_tariff_start hdo)) now))"

definition get_next_high_tariff_seconds ::
  "('p \<Rightarrow> string option \<Rightarrow> datetime \<Rightarrow> py_error + hdo_data)
     \<Rightarrow> 'p entity \<Rightarrow> datetime \<Rightarrow> datetime \<Rightarrow> py_error + int option" where
  "get_next_high_tariff_seconds parser self clock now =
     (case get_hdo_data parser self clock of
        Inl err \<Rightarrow> Inl err
      | Inr hdo \<Rightarrow>
          if high_tariff_active hdo \<or> high_tariff_start hdo = None then Inr None
          else map_sum id Some (seconds_until (the (high_tariff_start hdo)) now))"










section \<open>The countdown sensors (\<open>sensor.py\<close>)\<close>

text \<open>
  The four subclasses of \<open>CezHdoTimeRemainingSensor\<close>. \<open>native_value\<close> is the
  countdown method of the class.
\<close>

datatype countdown_sensor =
  LowTariffRemaining | HighTariffRemaining | NextLowTariffCountdown | NextHighTariffCountdown

fun native_value ::
  "countdown_sensor \<Rightarrow> ('p \<Rightarrow> string option \<Rightarrow> datetime \<Rightarrow> py_error + hdo_data)
     \<Rightarrow> 'p entity \<Rightarrow> datetime \<Rightarrow> datetime \<Rightarrow> py_error + int option" where
  "native_value LowTariffRemaining = get_low_tariff_remaining_seconds"
| "native_value HighTariffRemaining = get_high_tariff_remaining_seconds"
| "native_value NextLowTariffCountdown = get_next_low_tariff_seconds"
| "native_value NextHighTariffCountdown = get_next_high_tariff_seconds"

text \<open>
  The format \<open>{n:02d}\<close>: the decimal digits of \<open>n\<close>, padded with zeros to two
  characters, the sign counting as one of them.
\<close>

definition digit :: "nat \<Rightarrow> char" where
  "digit d = char_of (48 + d)"

function decimal :: "nat \<Rightarrow> string" where
  "decimal n = (if n < 10 then [digit n] else decimal (n div 10) @ [digit (n mod 10)])"
  by pat_completeness auto
termination
  by (relation "measure id") auto

declare decimal.simps [simp del]

definition format_02d :: "int \<Rightarrow> string" where
  "format_02d n =
     (if n < 0 then CHR ''-'' # decimal (nat (- n))
      else if n < 10 then CHR ''0'' # decimal (nat n)
      else decimal (nat n))"

text \<open>
  The attributes a countdown sensor reports: \<open>response_json\<close> from the base class
  (the key is absent when there is no response), and the two keys the sensor adds.
  The Czech texts are given by their UTF-8 bytes.
\<close>

record 'p attributes =
  response_json :: "'p option"
  formatted_time :: "string option"
  display_text :: string

definition base_extra_state_attributes :: "'p entity \<Rightarrow> 'p option" where
  "base_extra_state_attributes self = response_data self"

definition text_running :: "countdown_sensor \<Rightarrow> string" where
  "text_running k =
     (if k = LowTariffRemaining \<or> k = HighTariffRemaining
      then ''Zb'' @ [CHR 0xC3, CHR 0xBD] @ ''v'' @ [CHR 0xC3, CHR 0xA1] @ '' ''
      else ''Za '')"

definition text_idle :: "countdown_sensor \<Rightarrow> string" where
  "text_idle k =
     (if k = LowTariffRemaining \<or> k = HighTariffRemaining
      then ''Nen'' @ [CHR 0xC3, CHR 0xAD] @ '' aktivn'' @ [CHR 0xC3, CHR 0xAD]
      else ''Ji'' @ [CHR 0xC5, CHR 0xBE] @ '' aktivn'' @ [CHR 0xC3, CHR 0xAD])"

definition extra_state_attributes ::
  "countdown_sensor \<Rightarrow> ('p \<Rightarrow> string option \<Rightarrow> datetime \<Rightarrow> py_error + hdo_data)
     \<Rightarrow> 'p entity \<Rightarrow> datetime \<Rightarrow> datetime \<Rightarrow> py_error + 'p attributes" where
  "extra_state_attributes k parser self clock now =
     (case native_value k parser self clock now of
        Inl err \<Rightarrow> Inl err
      | Inr None \<Rightarrow>
          Inr \<lparr>response_json = base_extra_state_attributes self,
               formatted_time = None, display_text = text_idle k\<rparr>
      | Inr (Some remaining_seconds) \<Rightarrow>
          (let hours = remaining_seconds div 3600;
               minutes = (remaining_seconds mod 3600) div 60;
               seconds = remaining_seconds mod 60;
               hms = format_02d hours @ '':'' @ format_02d minutes @ '':'' @ format_02d seconds
           in Inr \<lparr>response_json = base_extra_state_attributes self,
                    formatted_time = Some hms, display_text = text_running k @ hms\<rparr>))"

text \<open>
  Reading a formatted time back: the decimal numbers before the first colon, between
  the colons and after the second colon.
\<close>

definition digit_value :: "char \<Rightarrow> nat" where
  "digit_value c = of_char c - 48"

definition read_decimal :: "string \<Rightarrow> nat" where
  "read_decimal s = foldl (\<lambda>a c. 10 * a + digit_value c) 0 s"

definition read_hms :: "string \<Rightarrow> nat \<times> nat \<times> nat" where
  "read_hms s =
     (let h = takeWhile (\<lambda>c. c \<noteq> CHR '':'') s;
          r = drop 1 (dropWhile (\<lambda>c. c \<noteq> CHR '':'') s);
          m = takeWhile (\<lambda>c. c \<noteq> CHR '':'') r;
          t = drop 1 (dropWhile (\<lambda>c. c \<noteq> CHR '':'') r)
      in (read_decimal h, read_decimal m, read_decimal t))"

section \<open>Concrete inputs\<close>

text \<open>The constructors \<open>time(h, m, s, us)\<close> and \<open>datetime(y, mo, d, h, m, s, us)\<close>.\<close>

definition py_time :: "nat \<Rightarrow> nat \<Rightarrow> nat \<Rightarrow> nat \<Rightarrow> time" where
  "py_time h m s us = \<lparr>hour = h, minute = m, second = s, microsecond = us\<rparr>"

definition py_datetime ::
  "nat \<Rightarrow> nat \<Rightarrow> nat \<Rightarrow> nat \<Rightarrow> nat \<Rightarrow> nat \<Rightarrow> nat \<Rightarrow> datetime" where
  "py_datetime y mo d h m s us =
     \<lparr>dt_date = \<lparr>year = y, month = mo, day = d\<rparr>, dt_time = py_time h m s us\<rparr>"

text \<open>An entity that holds a response of a successful update, and one that holds none.\<close>

definition stored :: "'p \<Rightarrow> 'p entity" where
  "stored p =
     \<lparr>ean = ''859182400100000000'', signal = None, entity_name = ''LowTariffRemaining'',
      response_data = Some p, last_update_success = True, last_update_time = None\<rparr>"

definition fresh :: "'p entity" where
  "fresh =
     \<lparr>ean = ''859182400100000000'', signal = None, entity_name = ''LowTariffRemaining'',
      response_data = None, last_update_success = False, last_update_time = None\<rparr>"

text \<open>A parser that returns a given tuple, and one that raises a given exception.\<close>

definition returns ::
  "hdo_data \<Rightarrow> unit \<Rightarrow> string option \<Rightarrow> datetime \<Rightarrow> py_error + hdo_data" where
  "returns hdo = (\<lambda>data preferred_signal clock. Inr hdo)"

definition raises ::
  "py_error \<Rightarrow> unit \<Rightarrow> string option \<Rightarrow> datetime \<Rightarrow> py_error + hdo_data" where
  "raises err = (\<lambda>data preferred_signal clock. Inl err)"

text \<open>
  Two tuples: the low tariff running in a window from 22:00 to 06:00, and the high
  tariff running after a low window from 08:00 to 20:00.
\<close>

definition night_low :: hdo_data where
  "night_low =
     \<lparr>low_tariff_active = True, low_tariff_start = Some (py_time 22 0 0 0),
      low_tariff_end = Some (py_time 6 0 0 0), low_tariff_duration = Some 28800000000,
      high_tariff_active = False, high_tariff_start = Some (py_time 6 0 0 0),
      high_tariff_end = None, high_tariff_duration = None\<rparr>"

definition evening_high :: hdo_data where
  "evening_high =
     \<lparr>low_tariff_active = False, low_tariff_start = Some (py_time 8 0 0 0),
      low_tariff_end = None, low_tariff_duration = None,
      high_tariff_active = True, high_tariff_start = Some (py_time 20 0 0 0),
      high_tariff_end = Some (py_time 8 0 0 0), high_tariff_duration = Some 43200000000\<rparr>"


section \<open>Facts about the calendar and the clock\<close>

lemma valid_datetime_time: "valid_datetime dt \<Longrightarrow> valid_time (dt_time dt)"
  by (simp add: valid_datetime_def)

lemma lex_le_time:
  assumes "valid_time a" and "valid_time b"
  shows "lex_le [hour a, minute a, second a, microsecond a]
                [hour b, minute b, second b, microsecond b]
           \<longleftrightarrow> us_of_day a \<le> us_of_day b"
  using assms unfolding valid_time_def us_of_day_def day_seconds_def
  by (auto simp: not_less)

lemma dt_le_same_date:
  assumes "valid_time b" and "valid_time (dt_time now)"
  shows "dt_le (combine (dt_date now) b) now \<longleftrightarrow> us_of_day b \<le> us_of_day (dt_time now)"
  using lex_le_time[OF assms] by (simp add: dt_le_def dt_fields_def combine_def)

lemma us_of_day_bounds:
  assumes "valid_time t"
  shows "0 \<le> us_of_day t" and "us_of_day t < 86400000000"
  using assms unfolding valid_time_def us_of_day_def day_seconds_def by auto

lemma dt_sub_same_date:
  "dt_sub (combine (dt_date now) b) now = us_of_day b - us_of_day (dt_time now)"
  by (simp add: dt_sub_def combine_def us_of_day_def algebra_simps)

lemma toordinal_next_day: "toordinal (d\<lparr>day := day d + 1\<rparr>) = toordinal d + 1"
  by (simp add: toordinal_def)

lemma dt_sub_next_day:
  "dt_sub \<lparr>dt_date = (dt_date now)\<lparr>day := Suc (day (dt_date now))\<rparr>, dt_time = b\<rparr> now
     = 86400000000 + us_of_day b - us_of_day (dt_time now)"
  using toordinal_next_day[of "dt_date now"]
  by (simp add: dt_sub_def us_of_day_def algebra_simps)

text \<open>
  What the shared tail of the countdown methods computes, by the time of day of the
  boundary and of the clock.
\<close>

lemma seconds_until_cases:
  assumes "valid_time b" and "valid_time (dt_time now)"
  shows "seconds_until b now =
     (if us_of_day (dt_time now) < us_of_day b
      then Inr ((us_of_day b - us_of_day (dt_time now)) div 1000000)
      else if day (dt_date now) + 1 \<le> days_in_month (year (dt_date now)) (month (dt_date now))
      then Inr ((86400000000 + us_of_day b - us_of_day (dt_time now)) div 1000000)
      else Inl ValueError)"
proof (cases "us_of_day (dt_time now) < us_of_day b")
  case True
  then have "\<not> dt_le (combine (dt_date now) b) now"
    using dt_le_same_date[OF assms] by simp
  moreover have "0 \<le> (us_of_day b - us_of_day (dt_time now)) div 1000000"
    using True by simp
  ultimately show ?thesis
    using True by (simp add: seconds_until_def Let_def dt_sub_same_date int_total_seconds_def)
next
  case False
  then have le: "dt_le (combine (dt_date now) b) now"
    using dt_le_same_date[OF assms] by simp
  have pos: "0 \<le> 86400000000 + us_of_day b - us_of_day (dt_time now)"
    using us_of_day_bounds[OF assms(1)] us_of_day_bounds[OF assms(2)] by simp
  then have "0 \<le> (86400000000 + us_of_day b - us_of_day (dt_time now)) div 1000000"
    by simp
  then show ?thesis
    using False le pos
    by (simp add: seconds_until_def Let_def replace_day_def dt_sub_next_day
        int_total_seconds_def combine_def)
qed

section \<open>Facts about the entity\<close>



lemmas countdown_defs =
  get_low_tariff_remaining_seconds_def get_high_tariff_remaining_seconds_def
  get_next_low_tariff_seconds_def get_next_high_tariff_seconds_def

lemmas evaluation =
  py_time_def py_datetime_def stored_def fresh_def returns_def raises_def night_low_def
  evening_high_def no_data_def get_hdo_data_def truthy_def seconds_until_def combine_def
  dt_le_def dt_fields_def replace_day_def days_in_month_def is_leap_def dt_sub_def toordinal_def
  day_seconds_def int_total_seconds_def days_before_month_def days_before_year_def
  us_of_day_def valid_time_def valid_date_def valid_datetime_def

lemma us_until_next_bounds:
  assumes "valid_time b" and "valid_time (dt_time now)"
  shows "0 < us_until_next b now" and "us_until_next b now \<le> 86400000000"
  using us_of_day_bounds[OF assms(1)] us_of_day_bounds[OF assms(2)]
  by (auto simp: us_until_next_def)

lemma seconds_until_returns:
  assumes "valid_time b" and "valid_time (dt_time now)" and "seconds_until b now = Inr v"
  shows "v = us_until_next b now div 1000000"
  using assms(3) unfolding seconds_until_cases[OF assms(1,2)] us_until_next_def
  by (auto split: if_splits)

lemma countdown_value_range:
  assumes "valid_time b" and "valid_time (dt_time now)" and "seconds_until b now = Inr v"
  shows "0 \<le> v" and "v \<le> 86400" and "v = 0 \<longleftrightarrow> us_until_next b now < 1000000"
    and "us_of_day (dt_time now) = us_of_day b \<longrightarrow> v = 86400"
proof -
  have v: "v = us_until_next b now div 1000000"
    by (rule seconds_until_returns[OF assms])
  have pos: "0 < us_until_next b now" and le: "us_until_next b now \<le> 86400000000"
    by (rule us_until_next_bounds[OF assms(1,2)])+
  show "0 \<le> v" using v pos by simp
  show "v \<le> 86400" using v le by simp
  show "v = 0 \<longleftrightarrow> us_until_next b now < 1000000"
    using v pos by (auto simp: zdiv_eq_0_iff)
  show "us_of_day (dt_time now) = us_of_day b \<longrightarrow> v = 86400"
    using v by (simp add: us_until_next_def)
qed

lemma countdown_unfold:
  assumes "get_hdo_data parser self clock = Inr hdo"
  shows "get_low_tariff_remaining_seconds parser self clock now =
           (if \<not> low_tariff_active hdo \<or> low_tariff_end hdo = None then Inr None
            else map_sum id Some (seconds_until (the (low_tariff_end hdo)) now))"
    and "get_high_tariff_remaining_seconds parser self clock now =
           (if \<not> high_tariff_active hdo \<or> high_tariff_end hdo = None then Inr None
            else map_sum id Some (seconds_until (the (high_tariff_end hdo)) now))"
    and "get_next_low_tariff_seconds parser self clock now =
           (if low_tariff_active hdo \<or> low_tariff_start hdo = None then Inr None
            else map_sum id Some (seconds_until (the (low_tariff_start hdo)) now))"
    and "get_next_high_tariff_seconds parser self clock now =
           (if high_tariff_active hdo \<or> high_tariff_start hdo = None then Inr None
            else map_sum id Some (seconds_until (the (high_tariff_start hdo)) now))"
  using assms by (simp_all add: countdown_defs)

lemma map_sum_Some_eq:
  "map_sum id Some r = Inr (Some v) \<longleftrightarrow> r = Inr v"
  by (cases r) auto

lemma countdown_returns:
  assumes "get_hdo_data parser self clock = Inr hdo"
  shows "get_low_tariff_remaining_seconds parser self clock now = Inr (Some v)
           \<Longrightarrow> low_tariff_end hdo = Some b \<Longrightarrow> seconds_until b now = Inr v"
    and "get_high_tariff_remaining_seconds parser self clock now = Inr (Some v)
           \<Longrightarrow> high_tariff_end hdo = Some b \<Longrightarrow> seconds_until b now = Inr v"
    and "get_next_low_tariff_seconds parser self clock now = Inr (Some v)
           \<Longrightarrow> low_tariff_start hdo = Some b \<Longrightarrow> seconds_until b now = Inr v"
    and "get_next_high_tariff_seconds parser self clock now = Inr (Some v)
           \<Longrightarrow> high_tariff_start hdo = Some b \<Longrightarrow> seconds_until b now = Inr v"
  unfolding countdown_unfold[OF assms]
  by (simp_all split: if_splits add: map_sum_Some_eq)

section \<open>Facts about the formatted time\<close>

lemma digit_value_digit: "d < 10 \<Longrightarrow> digit_value (digit d) = d"
  by (simp add: digit_value_def digit_def)

lemma digit_not_colon: "d < 10 \<Longrightarrow> digit d \<noteq> CHR '':''"
proof
  assume "d < 10" and "digit d = CHR '':''"
  then have "of_char (digit d) = (of_char (CHR '':'') :: nat)" by simp
  then show False using \<open>d < 10\<close> by (simp add: digit_def)
qed

lemma read_decimal_snoc: "read_decimal (s @ [c]) = 10 * read_decimal s + digit_value c"
  by (simp add: read_decimal_def)

lemma read_decimal_decimal: "read_decimal (decimal n) = n"
proof (induction n rule: decimal.induct)
  case (1 n)
  show ?case
  proof (cases "n < 10")
    case True
    then show ?thesis
      by (subst decimal.simps) (simp add: read_decimal_def digit_value_digit)
  next
    case False
    have "read_decimal (decimal n) = 10 * read_decimal (decimal (n div 10)) + digit_value (digit (n mod 10))"
      using False by (subst decimal.simps) (simp add: read_decimal_snoc)
    also have "\<dots> = 10 * (n div 10) + n mod 10"
      using 1[OF False] by (simp add: digit_value_digit)
    finally show ?thesis by simp
  qed
qed

lemma decimal_no_colon: "CHR '':'' \<notin> set (decimal n)"
proof (induction n rule: decimal.induct)
  case (1 n)
  show ?case
  proof (cases "n < 10")
    case True
    then show ?thesis using digit_not_colon[of n] by (subst decimal.simps) (auto simp: eq_commute)
  next
    case False
    then show ?thesis
      using 1[OF False] digit_not_colon[of "n mod 10"]
      by (subst decimal.simps) (auto simp: eq_commute)
  qed
qed

lemma digit_value_zero: "digit_value (CHR ''0'') = 0"
  by (simp add: digit_value_def)

lemma foldl_leading_zero:
  "foldl (\<lambda>a c. 10 * a + digit_value c) 0 (CHR ''0'' # s)
     = foldl (\<lambda>a c. 10 * a + digit_value c) 0 s"
  by (simp add: digit_value_zero)

lemma read_decimal_zero: "read_decimal (CHR ''0'' # s) = read_decimal s"
  by (simp only: read_decimal_def foldl_leading_zero)

lemma format_02d_read: "0 \<le> n \<Longrightarrow> read_decimal (format_02d n) = nat n"
  by (simp add: format_02d_def read_decimal_zero read_decimal_decimal)

lemma format_02d_no_colon: "0 \<le> n \<Longrightarrow> CHR '':'' \<notin> set (format_02d n)"
  using decimal_no_colon by (simp add: format_02d_def)

lemma takeWhile_colon: "CHR '':'' \<notin> set a \<Longrightarrow> takeWhile (\<lambda>c. c \<noteq> CHR '':'') (a @ CHR '':'' # r) = a"
  by (induction a) auto

lemma takeWhile_no_colon: "CHR '':'' \<notin> set a \<Longrightarrow> takeWhile (\<lambda>c. c \<noteq> CHR '':'') a = a"
  by (induction a) auto

lemma dropWhile_colon: "CHR '':'' \<notin> set a \<Longrightarrow> dropWhile (\<lambda>c. c \<noteq> CHR '':'') (a @ CHR '':'' # r) = CHR '':'' # r"
  by (induction a) auto

lemma dropWhile_no_colon: "CHR '':'' \<notin> set a \<Longrightarrow> dropWhile (\<lambda>c. c \<noteq> CHR '':'') a = []"
  by (induction a) auto

lemma read_hms_format:
  assumes "0 \<le> h" "0 \<le> m" "0 \<le> s"
  shows "read_hms (format_02d h @ '':'' @ format_02d m @ '':'' @ format_02d s) = (nat h, nat m, nat s)"
  using format_02d_no_colon[OF assms(1)] format_02d_no_colon[OF assms(2)] format_02d_no_colon[OF assms(3)]
  by (simp add: read_hms_def takeWhile_colon dropWhile_colon takeWhile_no_colon dropWhile_no_colon
      format_02d_read assms)

lemma seconds_until_nonneg: "seconds_until b now = Inr v \<Longrightarrow> 0 \<le> v"
  by (auto simp: seconds_until_def Let_def split: sum.splits)

lemma native_value_nonneg: "native_value k parser self clock now = Inr (Some v) \<Longrightarrow> 0 \<le> v"
  by (cases k)
    (auto simp: countdown_defs map_sum_Some_eq split: sum.splits if_splits
      dest: seconds_until_nonneg)

lemma hms_sum: "0 \<le> (v::int) \<Longrightarrow> int (nat (v div 3600)) * 3600 + int (nat (v mod 3600 div 60)) * 60 + int (nat (v mod 60)) = v"
proof -
  assume v: "0 \<le> v"
  have a: "v mod 3600 div 60 * 60 + v mod 3600 mod 60 = v mod 3600"
    by (rule div_mult_mod_eq)
  have b: "v mod 3600 mod 60 = v mod 60"
    by (rule mod_mod_cancel) simp
  have c: "v div 3600 * 3600 + v mod 3600 = v"
    by (rule div_mult_mod_eq)
  have "0 \<le> v div 3600" "0 \<le> v mod 3600 div 60" "0 \<le> v mod 60"
    using v by simp_all
  then have "int (nat (v div 3600)) * 3600 + int (nat (v mod 3600 div 60)) * 60 + int (nat (v mod 60))
      = v div 3600 * 3600 + (v mod 3600 div 60 * 60 + v mod 3600 mod 60)"
    by (simp only: b int_nat_eq if_True add.assoc)
  also have "\<dots> = v div 3600 * 3600 + v mod 3600"
    by (simp only: a)
  also have "\<dots> = v"
    by (rule c)
  finally show ?thesis .
qed

lemma hms_bounds: "nat ((v::int) mod 3600 div 60) \<le> 59" "nat (v mod 60) \<le> 59"
proof -
  have "v mod 3600 < 3600" by simp
  then have "v mod 3600 div 60 < 60" by (simp add: div_less_iff_less_mult)
  then show "nat (v mod 3600 div 60) \<le> 59" by simp
  have "v mod 60 < 60" by simp
  then show "nat (v mod 60) \<le> 59" by simp
qed

section \<open>Facts about the unresolved tuple\<close>



section \<open>Facts about the classes\<close>





section \<open>The countdown methods\<close>

text \<open>
  C4. Each of the four countdown methods returns \<open>None\<close> when its precondition does
  not hold: the two remaining-time methods when their tariff is not active, the two
  next-start methods when their tariff is already active.
\<close>

theorem countdown_not_applicable:
  assumes "get_hdo_data parser self clock = Inr hdo"
  shows "(\<not> low_tariff_active hdo \<longrightarrow>
            get_low_tariff_remaining_seconds parser self clock now = Inr None)
       \<and> (\<not> high_tariff_active hdo \<longrightarrow>
            get_high_tariff_remaining_seconds parser self clock now = Inr None)
       \<and> (low_tariff_active hdo \<longrightarrow>
            get_next_low_tariff_seconds parser self clock now = Inr None)
       \<and> (high_tariff_active hdo \<longrightarrow>
            get_next_high_tariff_seconds parser self clock now = Inr None)"
  using assms by (simp add: countdown_defs)

theorem countdown_not_applicable_witness:
  "get_hdo_data (returns night_low) (stored ()) (py_datetime 2024 1 15 23 0 0 0) = Inr night_low
   \<and> get_high_tariff_remaining_seconds (returns night_low) (stored ())
        (py_datetime 2024 1 15 23 0 0 0) (py_datetime 2024 1 15 23 0 0 1) = Inr None
   \<and> get_next_low_tariff_seconds (returns night_low) (stored ())
        (py_datetime 2024 1 15 23 0 0 0) (py_datetime 2024 1 15 23 0 0 1) = Inr None
   \<and> get_hdo_data (returns evening_high) (stored ()) (py_datetime 2024 1 15 21 0 0 0)
        = Inr evening_high
   \<and> get_low_tariff_remaining_seconds (returns evening_high) (stored ())
        (py_datetime 2024 1 15 21 0 0 0) (py_datetime 2024 1 15 21 0 0 1) = Inr None
   \<and> get_next_high_tariff_seconds (returns evening_high) (stored ())
        (py_datetime 2024 1 15 21 0 0 0) (py_datetime 2024 1 15 21 0 0 1) = Inr None"
proof -
  have a: "get_hdo_data (returns night_low) (stored ()) (py_datetime 2024 1 15 23 0 0 0)
             = Inr night_low"
    by (simp add: get_hdo_data_def returns_def stored_def)
  have b: "get_hdo_data (returns evening_high) (stored ()) (py_datetime 2024 1 15 21 0 0 0)
             = Inr evening_high"
    by (simp add: get_hdo_data_def returns_def stored_def)
  have c: "low_tariff_active night_low" "\<not> high_tariff_active night_low"
    "\<not> low_tariff_active evening_high" "high_tariff_active evening_high"
    by (simp_all add: night_low_def evening_high_def)
  show ?thesis
    using countdown_not_applicable[OF a, of "py_datetime 2024 1 15 23 0 0 1"]
      countdown_not_applicable[OF b, of "py_datetime 2024 1 15 21 0 0 1"] a b c
    by simp
qed

text \<open>
  C9. For one entity and one reading of the parser, the remaining-time method and the
  next-start method of the same tariff never both return a number, whatever the clocks
  the two methods read.
\<close>

theorem remaining_and_next_exclusive:
  "\<not> (\<exists>a b. get_low_tariff_remaining_seconds parser self clock now = Inr (Some a)
             \<and> get_next_low_tariff_seconds parser self clock now' = Inr (Some b))
   \<and> \<not> (\<exists>a b. get_high_tariff_remaining_seconds parser self clock now = Inr (Some a)
             \<and> get_next_high_tariff_seconds parser self clock now' = Inr (Some b))"
  by (auto simp: countdown_defs split: sum.splits if_splits)

theorem remaining_and_next_exclusive_witness:
  "get_low_tariff_remaining_seconds (returns night_low) (stored ())
       (py_datetime 2024 1 15 23 0 0 0) (py_datetime 2024 1 15 23 0 0 0) = Inr (Some 25200)
   \<and> get_next_low_tariff_seconds (returns night_low) (stored ())
       (py_datetime 2024 1 15 23 0 0 0) (py_datetime 2024 1 15 23 0 0 1) \<noteq> Inr (Some 25199)
   \<and> get_next_high_tariff_seconds (returns night_low) (stored ())
       (py_datetime 2024 1 15 23 0 0 0) (py_datetime 2024 1 15 23 0 0 0) = Inr (Some 25200)
   \<and> get_high_tariff_remaining_seconds (returns night_low) (stored ())
       (py_datetime 2024 1 15 23 0 0 0) (py_datetime 2024 1 15 23 0 0 1) \<noteq> Inr (Some 25199)"
proof -
  have a: "get_low_tariff_remaining_seconds (returns night_low) (stored ())
       (py_datetime 2024 1 15 23 0 0 0) (py_datetime 2024 1 15 23 0 0 0) = Inr (Some 25200)"
    by (simp add: countdown_defs evaluation)
  have b: "get_next_high_tariff_seconds (returns night_low) (stored ())
       (py_datetime 2024 1 15 23 0 0 0) (py_datetime 2024 1 15 23 0 0 0) = Inr (Some 25200)"
    by (simp add: countdown_defs evaluation)
  show ?thesis
    using a b
      remaining_and_next_exclusive[of "returns night_low" "stored ()"
        "py_datetime 2024 1 15 23 0 0 0" "py_datetime 2024 1 15 23 0 0 0"
        "py_datetime 2024 1 15 23 0 0 1"]
      remaining_and_next_exclusive[of "returns night_low" "stored ()"
        "py_datetime 2024 1 15 23 0 0 0" "py_datetime 2024 1 15 23 0 0 1"
        "py_datetime 2024 1 15 23 0 0 0"]
    by auto
qed

text \<open>
  C2. \<open>get_low_tariff_remaining_seconds\<close> returns a number only when the low tariff
  is active and its end is not null. Under that precondition it returns the whole
  seconds from the clock to the end of the running period, which is the next
  occurrence of the end's time of day after the clock, floored at 0. It does so
  whenever that end is still on the date of the clock, and on every date but the last
  of a month when it is on the next day; on the last day of a month with the end on
  the next day the method raises \<open>ValueError\<close> and returns nothing.
\<close>

theorem low_tariff_remaining_value:
  assumes "get_hdo_data parser self clock = Inr hdo" and "valid_datetime now"
  shows "(get_low_tariff_remaining_seconds parser self clock now = Inr (Some v)
            \<longrightarrow> low_tariff_active hdo \<and> low_tariff_end hdo \<noteq> None \<and> 0 \<le> v)
       \<and> (low_tariff_active hdo \<and> low_tariff_end hdo = Some e \<and> valid_time e
            \<and> (us_of_day (dt_time now) < us_of_day e
                \<or> day (dt_date now) < days_in_month (year (dt_date now)) (month (dt_date now)))
            \<longrightarrow> get_low_tariff_remaining_seconds parser self clock now
                  = Inr (Some (max 0 (us_until_next e now div 1000000))))
       \<and> (low_tariff_active hdo \<and> low_tariff_end hdo = Some e \<and> valid_time e
            \<and> us_of_day e \<le> us_of_day (dt_time now)
            \<and> day (dt_date now) = days_in_month (year (dt_date now)) (month (dt_date now))
            \<longrightarrow> get_low_tariff_remaining_seconds parser self clock now = Inl ValueError)"
proof (intro conjI impI)
  assume g: "get_low_tariff_remaining_seconds parser self clock now = Inr (Some v)"
  then show "low_tariff_active hdo" and "low_tariff_end hdo \<noteq> None"
    unfolding countdown_unfold(1)[OF assms(1)] by (auto split: if_splits)
  from g have "seconds_until (the (low_tariff_end hdo)) now = Inr v"
    unfolding countdown_unfold(1)[OF assms(1)]
    by (simp split: if_splits add: map_sum_Some_eq)
  then show "0 \<le> v"
    by (rule seconds_until_nonneg)
next
  assume a: "low_tariff_active hdo \<and> low_tariff_end hdo = Some e \<and> valid_time e
    \<and> (us_of_day (dt_time now) < us_of_day e
        \<or> day (dt_date now) < days_in_month (year (dt_date now)) (month (dt_date now)))"
  then have e: "valid_time e"
    by simp
  have "0 < us_until_next e now"
    by (rule us_until_next_bounds(1)[OF e valid_datetime_time[OF assms(2)]])
  then have m: "max 0 (us_until_next e now div 1000000) = us_until_next e now div 1000000"
    by simp
  have "seconds_until e now = Inr (us_until_next e now div 1000000)"
    using a by (auto simp: seconds_until_cases[OF e valid_datetime_time[OF assms(2)]]
        us_until_next_def)
  then show "get_low_tariff_remaining_seconds parser self clock now
      = Inr (Some (max 0 (us_until_next e now div 1000000)))"
    using a unfolding countdown_unfold(1)[OF assms(1)] m by simp
next
  assume a: "low_tariff_active hdo \<and> low_tariff_end hdo = Some e \<and> valid_time e
    \<and> us_of_day e \<le> us_of_day (dt_time now)
    \<and> day (dt_date now) = days_in_month (year (dt_date now)) (month (dt_date now))"
  then show "get_low_tariff_remaining_seconds parser self clock now = Inl ValueError"
    unfolding countdown_unfold(1)[OF assms(1)]
    by (simp add: seconds_until_cases[OF _ valid_datetime_time[OF assms(2)]])
qed

theorem low_tariff_remaining_value_witness:
  "get_low_tariff_remaining_seconds (returns night_low) (stored ())
       (py_datetime 2024 1 15 5 0 0 0) (py_datetime 2024 1 15 5 0 0 250000) = Inr (Some 3599)
   \<and> get_low_tariff_remaining_seconds (returns night_low) (stored ())
       (py_datetime 2024 1 15 23 0 0 0) (py_datetime 2024 1 15 23 0 0 250000) = Inr (Some 25199)
   \<and> get_low_tariff_remaining_seconds (returns night_low) (stored ())
       (py_datetime 2024 1 31 23 0 0 0) (py_datetime 2024 1 31 23 0 0 250000) = Inl ValueError"
proof -
  have hd: "get_hdo_data (returns night_low) (stored ()) c = Inr night_low" for c
    by (simp add: get_hdo_data_def returns_def stored_def)
  have v: "valid_datetime (py_datetime 2024 1 15 5 0 0 250000)"
    "valid_datetime (py_datetime 2024 1 15 23 0 0 250000)"
    "valid_datetime (py_datetime 2024 1 31 23 0 0 250000)"
    "valid_time (py_time 6 0 0 0)"
    by (simp_all add: evaluation)
  have f: "low_tariff_active night_low" "low_tariff_end night_low = Some (py_time 6 0 0 0)"
    by (simp_all add: night_low_def)
  have m: "day (dt_date (py_datetime 2024 1 15 23 0 0 250000))
      < days_in_month (year (dt_date (py_datetime 2024 1 15 23 0 0 250000)))
          (month (dt_date (py_datetime 2024 1 15 23 0 0 250000)))"
    "day (dt_date (py_datetime 2024 1 31 23 0 0 250000))
      = days_in_month (year (dt_date (py_datetime 2024 1 31 23 0 0 250000)))
          (month (dt_date (py_datetime 2024 1 31 23 0 0 250000)))"
    by (simp_all add: evaluation)
  have u: "us_of_day (dt_time (py_datetime 2024 1 15 5 0 0 250000)) < us_of_day (py_time 6 0 0 0)"
    "us_of_day (py_time 6 0 0 0) \<le> us_of_day (dt_time (py_datetime 2024 1 31 23 0 0 250000))"
    "max 0 (us_until_next (py_time 6 0 0 0) (py_datetime 2024 1 15 5 0 0 250000) div 1000000)
       = 3599"
    "max 0 (us_until_next (py_time 6 0 0 0) (py_datetime 2024 1 15 23 0 0 250000) div 1000000)
       = 25199"
    by (simp_all add: evaluation us_until_next_def)
  have a: "get_low_tariff_remaining_seconds (returns night_low) (stored ())
       (py_datetime 2024 1 15 5 0 0 0) (py_datetime 2024 1 15 5 0 0 250000)
     = Inr (Some (max 0 (us_until_next (py_time 6 0 0 0)
         (py_datetime 2024 1 15 5 0 0 250000) div 1000000)))"
    using low_tariff_remaining_value[OF hd v(1), where e = "py_time 6 0 0 0"
        and clock = "py_datetime 2024 1 15 5 0 0 0"] v(4) f u(1)
    by blast
  have b: "get_low_tariff_remaining_seconds (returns night_low) (stored ())
       (py_datetime 2024 1 15 23 0 0 0) (py_datetime 2024 1 15 23 0 0 250000)
     = Inr (Some (max 0 (us_until_next (py_time 6 0 0 0)
         (py_datetime 2024 1 15 23 0 0 250000) div 1000000)))"
    using low_tariff_remaining_value[OF hd v(2), where e = "py_time 6 0 0 0"
        and clock = "py_datetime 2024 1 15 23 0 0 0"] v(4) f m(1)
    by blast
  have c: "get_low_tariff_remaining_seconds (returns night_low) (stored ())
       (py_datetime 2024 1 31 23 0 0 0) (py_datetime 2024 1 31 23 0 0 250000) = Inl ValueError"
    using low_tariff_remaining_value[OF hd v(3), where e = "py_time 6 0 0 0"
        and clock = "py_datetime 2024 1 31 23 0 0 0"] v(4) f m(2) u(2)
    by blast
  show ?thesis
    using a b c by (simp only: u(3,4) simp_thms)
qed

text \<open>
  C3. When the boundary taken on the date of the clock is not after the clock, each of
  the four methods moves it with \<open>replace(day=day + 1)\<close>. On the last day of a month
  that day does not exist: the method raises \<open>ValueError\<close> instead of returning the
  time to the boundary on the first day of the next month.
\<close>

theorem day_rollover_fails_at_month_end:
  assumes "get_hdo_data parser self clock = Inr hdo"
    and "valid_datetime now" and "valid_time b"
    and "us_of_day b \<le> us_of_day (dt_time now)"
    and "day (dt_date now) = days_in_month (year (dt_date now)) (month (dt_date now))"
  shows "(low_tariff_active hdo \<and> low_tariff_end hdo = Some b
            \<longrightarrow> get_low_tariff_remaining_seconds parser self clock now = Inl ValueError)
       \<and> (high_tariff_active hdo \<and> high_tariff_end hdo = Some b
            \<longrightarrow> get_high_tariff_remaining_seconds parser self clock now = Inl ValueError)
       \<and> (\<not> low_tariff_active hdo \<and> low_tariff_start hdo = Some b
            \<longrightarrow> get_next_low_tariff_seconds parser self clock now = Inl ValueError)
       \<and> (\<not> high_tariff_active hdo \<and> high_tariff_start hdo = Some b
            \<longrightarrow> get_next_high_tariff_seconds parser self clock now = Inl ValueError)"
proof -
  have "seconds_until b now = Inl ValueError"
    using assms(4,5) by (simp add: seconds_until_cases[OF assms(3) valid_datetime_time[OF assms(2)]])
  then show ?thesis
    by (simp add: countdown_unfold[OF assms(1)])
qed

theorem day_rollover_fails_at_month_end_witness:
  "get_low_tariff_remaining_seconds (returns night_low) (stored ())
       (py_datetime 2024 1 31 23 0 0 0) (py_datetime 2024 1 31 23 0 0 0) = Inl ValueError
   \<and> get_next_high_tariff_seconds (returns night_low) (stored ())
       (py_datetime 2024 1 31 23 0 0 0) (py_datetime 2024 1 31 23 0 0 0) = Inl ValueError
   \<and> get_high_tariff_remaining_seconds (returns evening_high) (stored ())
       (py_datetime 2024 1 31 21 0 0 0) (py_datetime 2024 1 31 21 0 0 0) = Inl ValueError
   \<and> get_next_low_tariff_seconds (returns evening_high) (stored ())
       (py_datetime 2024 1 31 21 0 0 0) (py_datetime 2024 1 31 21 0 0 0) = Inl ValueError"
proof -
  have hd: "get_hdo_data (returns h) (stored ()) c = Inr h" for h c
    by (simp add: get_hdo_data_def returns_def stored_def)
  have v: "valid_datetime (py_datetime 2024 1 31 23 0 0 0)"
    "valid_datetime (py_datetime 2024 1 31 21 0 0 0)"
    "valid_time (py_time 6 0 0 0)" "valid_time (py_time 8 0 0 0)"
    by (simp_all add: evaluation)
  have u: "us_of_day (py_time 6 0 0 0) \<le> us_of_day (dt_time (py_datetime 2024 1 31 23 0 0 0))"
    "us_of_day (py_time 8 0 0 0) \<le> us_of_day (dt_time (py_datetime 2024 1 31 21 0 0 0))"
    by (simp_all add: evaluation)
  have m: "day (dt_date (py_datetime 2024 1 31 h 0 0 0))
      = days_in_month (year (dt_date (py_datetime 2024 1 31 h 0 0 0)))
          (month (dt_date (py_datetime 2024 1 31 h 0 0 0)))" for h
    by (simp add: evaluation)
  have f: "low_tariff_active night_low" "low_tariff_end night_low = Some (py_time 6 0 0 0)"
    "\<not> high_tariff_active night_low" "high_tariff_start night_low = Some (py_time 6 0 0 0)"
    "high_tariff_active evening_high" "high_tariff_end evening_high = Some (py_time 8 0 0 0)"
    "\<not> low_tariff_active evening_high" "low_tariff_start evening_high = Some (py_time 8 0 0 0)"
    by (simp_all add: night_low_def evening_high_def)
  show ?thesis
    using day_rollover_fails_at_month_end[OF hd v(1) v(3) u(1) m, where hdo = night_low
        and clock = "py_datetime 2024 1 31 23 0 0 0"]
      day_rollover_fails_at_month_end[OF hd v(2) v(4) u(2) m, where hdo = evening_high
        and clock = "py_datetime 2024 1 31 21 0 0 0"] f
    by simp
qed

text \<open>
  C6 as stated fails: half a second before the start of the next low period the
  method returns 0, at an instant that is not the boundary.
\<close>

theorem countdown_zero_counterexample:
  "\<not> low_tariff_active evening_high
   \<and> low_tariff_start evening_high = Some (py_time 8 0 0 0)
   \<and> dt_time (py_datetime 2024 1 15 7 59 59 500000) \<noteq> py_time 8 0 0 0
   \<and> get_next_low_tariff_seconds (returns evening_high) (stored ())
        (py_datetime 2024 1 15 7 59 59 499000) (py_datetime 2024 1 15 7 59 59 500000)
        = Inr (Some 0)"
  by (simp add: countdown_defs evaluation)

text \<open>
  C6, amended. A number a countdown method returns is between 0 and 86400. It is 0
  exactly when the next occurrence of the boundary time is less than one second after
  the clock, and at the boundary instant itself it is 86400, not 0.
\<close>

theorem countdown_range:
  assumes "get_hdo_data parser self clock = Inr hdo" and "valid_datetime now"
  shows "(get_low_tariff_remaining_seconds parser self clock now = Inr (Some v)
            \<and> low_tariff_end hdo = Some b \<and> valid_time b
          \<longrightarrow> 0 \<le> v \<and> v \<le> 86400 \<and> (v = 0 \<longleftrightarrow> us_until_next b now < 1000000)
              \<and> (us_of_day (dt_time now) = us_of_day b \<longrightarrow> v = 86400))
       \<and> (get_high_tariff_remaining_seconds parser self clock now = Inr (Some v)
            \<and> high_tariff_end hdo = Some b \<and> valid_time b
          \<longrightarrow> 0 \<le> v \<and> v \<le> 86400 \<and> (v = 0 \<longleftrightarrow> us_until_next b now < 1000000)
              \<and> (us_of_day (dt_time now) = us_of_day b \<longrightarrow> v = 86400))
       \<and> (get_next_low_tariff_seconds parser self clock now = Inr (Some v)
            \<and> low_tariff_start hdo = Some b \<and> valid_time b
          \<longrightarrow> 0 \<le> v \<and> v \<le> 86400 \<and> (v = 0 \<longleftrightarrow> us_until_next b now < 1000000)
              \<and> (us_of_day (dt_time now) = us_of_day b \<longrightarrow> v = 86400))
       \<and> (get_next_high_tariff_seconds parser self clock now = Inr (Some v)
            \<and> high_tariff_start hdo = Some b \<and> valid_time b
          \<longrightarrow> 0 \<le> v \<and> v \<le> 86400 \<and> (v = 0 \<longleftrightarrow> us_until_next b now < 1000000)
              \<and> (us_of_day (dt_time now) = us_of_day b \<longrightarrow> v = 86400))"
proof -
  have r: "0 \<le> v \<and> v \<le> 86400 \<and> (v = 0 \<longleftrightarrow> us_until_next b now < 1000000)
      \<and> (us_of_day (dt_time now) = us_of_day b \<longrightarrow> v = 86400)"
    if "valid_time b" and "seconds_until b now = Inr v"
    using countdown_value_range[OF that(1) valid_datetime_time[OF assms(2)] that(2)] by blast
  note s = countdown_returns[OF assms(1)]
  show ?thesis
    using r s(1) r s(2) r s(3) r s(4) by meson
qed

theorem countdown_range_witness:
  "get_next_low_tariff_seconds (returns evening_high) (stored ())
       (py_datetime 2024 1 15 7 59 59 0) (py_datetime 2024 1 15 7 59 59 500000) = Inr (Some 0)
   \<and> us_until_next (py_time 8 0 0 0) (py_datetime 2024 1 15 7 59 59 500000) < 1000000
   \<and> get_high_tariff_remaining_seconds (returns evening_high) (stored ())
       (py_datetime 2024 1 15 8 0 0 0) (py_datetime 2024 1 15 8 0 0 0) = Inr (Some 86400)
   \<and> get_low_tariff_remaining_seconds (returns night_low) (stored ())
       (py_datetime 2024 1 15 6 0 0 0) (py_datetime 2024 1 15 6 0 0 0) = Inr (Some 86400)
   \<and> get_next_high_tariff_seconds (returns night_low) (stored ())
       (py_datetime 2024 1 15 6 0 0 0) (py_datetime 2024 1 15 6 0 0 0) = Inr (Some 86400)"
proof -
  have hd: "get_hdo_data (returns h) (stored ()) c = Inr h" for h c
    by (simp add: get_hdo_data_def returns_def stored_def)
  have v: "valid_datetime (py_datetime 2024 1 15 7 59 59 500000)"
    "valid_datetime (py_datetime 2024 1 15 8 0 0 0)"
    "valid_datetime (py_datetime 2024 1 15 6 0 0 0)"
    "valid_time (py_time 8 0 0 0)" "valid_time (py_time 6 0 0 0)"
    by (simp_all add: evaluation)
  have g: "get_next_low_tariff_seconds (returns evening_high) (stored ())
       (py_datetime 2024 1 15 7 59 59 0) (py_datetime 2024 1 15 7 59 59 500000) = Inr (Some 0)"
    "get_high_tariff_remaining_seconds (returns evening_high) (stored ())
       (py_datetime 2024 1 15 8 0 0 0) (py_datetime 2024 1 15 8 0 0 0) = Inr (Some 86400)"
    "get_low_tariff_remaining_seconds (returns night_low) (stored ())
       (py_datetime 2024 1 15 6 0 0 0) (py_datetime 2024 1 15 6 0 0 0) = Inr (Some 86400)"
    "get_next_high_tariff_seconds (returns night_low) (stored ())
       (py_datetime 2024 1 15 6 0 0 0) (py_datetime 2024 1 15 6 0 0 0) = Inr (Some 86400)"
    by (simp_all add: countdown_defs evaluation)
  have f: "low_tariff_start evening_high = Some (py_time 8 0 0 0)"
    by (simp add: evening_high_def)
  show ?thesis
    using countdown_range[OF hd v(1), where hdo = evening_high
        and clock = "py_datetime 2024 1 15 7 59 59 0" and v = 0 and b = "py_time 8 0 0 0"]
      g f v(4)
    by simp
qed

section \<open>The countdown sensors\<close>

text \<open>
  C10. When the countdown of a sensor is a number, its attribute \<open>formatted_time\<close>
  reads back as hours, minutes and seconds with
  \<open>hours * 3600 + minutes * 60 + seconds\<close> equal to that number and with minutes and
  seconds at most 59; when the countdown is \<open>None\<close>, \<open>formatted_time\<close> is \<open>None\<close>.
\<close>

theorem formatted_time_decomposes:
  "(native_value k parser self clock now = Inr (Some v) \<longrightarrow>
      (\<exists>a f h m s. extra_state_attributes k parser self clock now = Inr a
         \<and> formatted_time a = Some f \<and> read_hms f = (h, m, s)
         \<and> int h * 3600 + int m * 60 + int s = v \<and> m \<le> 59 \<and> s \<le> 59))
   \<and> (native_value k parser self clock now = Inr None \<longrightarrow>
      (\<exists>a. extra_state_attributes k parser self clock now = Inr a \<and> formatted_time a = None))"
proof (intro conjI impI)
  assume nv: "native_value k parser self clock now = Inr (Some v)"
  then have v: "0 \<le> v"
    by (rule native_value_nonneg)
  let ?h = "v div 3600" and ?m = "v mod 3600 div 60" and ?s = "v mod 60"
  let ?f = "format_02d ?h @ '':'' @ format_02d ?m @ '':'' @ format_02d ?s"
  have nonneg: "0 \<le> ?h" "0 \<le> ?m" "0 \<le> ?s"
    using v by simp_all
  have a: "extra_state_attributes k parser self clock now
      = Inr \<lparr>response_json = base_extra_state_attributes self, formatted_time = Some ?f,
              display_text = text_running k @ ?f\<rparr>"
    using nv by (simp add: extra_state_attributes_def Let_def)
  have fa: "formatted_time \<lparr>response_json = base_extra_state_attributes self,
      formatted_time = Some ?f, display_text = text_running k @ ?f\<rparr> = Some ?f"
    by simp
  have r: "read_hms ?f = (nat ?h, nat ?m, nat ?s)"
    by (rule read_hms_format[OF nonneg])
  have sum: "int (nat ?h) * 3600 + int (nat ?m) * 60 + int (nat ?s) = v"
    by (rule hms_sum[OF v])
  have bounds: "nat ?m \<le> 59" "nat ?s \<le> 59"
    by (rule hms_bounds)+
  show "\<exists>a f h m s. extra_state_attributes k parser self clock now = Inr a
         \<and> formatted_time a = Some f \<and> read_hms f = (h, m, s)
         \<and> int h * 3600 + int m * 60 + int s = v \<and> m \<le> 59 \<and> s \<le> 59"
    using a fa r sum bounds by blast
next
  assume "native_value k parser self clock now = Inr None"
  then show "\<exists>a. extra_state_attributes k parser self clock now = Inr a \<and> formatted_time a = None"
    by (simp add: extra_state_attributes_def)
qed

theorem formatted_time_decomposes_witness:
  "native_value LowTariffRemaining (returns night_low) (stored ())
       (py_datetime 2024 1 15 23 0 0 0) (py_datetime 2024 1 15 23 0 0 0) = Inr (Some 25200)
   \<and> (\<exists>a f h m s. extra_state_attributes LowTariffRemaining (returns night_low) (stored ())
           (py_datetime 2024 1 15 23 0 0 0) (py_datetime 2024 1 15 23 0 0 0) = Inr a
         \<and> formatted_time a = Some f \<and> read_hms f = (h, m, s)
         \<and> int h * 3600 + int m * 60 + int s = 25200 \<and> m \<le> 59 \<and> s \<le> 59)
   \<and> native_value NextLowTariffCountdown (returns night_low) (stored ())
       (py_datetime 2024 1 15 23 0 0 0) (py_datetime 2024 1 15 23 0 0 0) = Inr None
   \<and> (\<exists>a. extra_state_attributes NextLowTariffCountdown (returns night_low) (stored ())
           (py_datetime 2024 1 15 23 0 0 0) (py_datetime 2024 1 15 23 0 0 0) = Inr a
         \<and> formatted_time a = None)"
proof -
  have a: "native_value LowTariffRemaining (returns night_low) (stored ())
       (py_datetime 2024 1 15 23 0 0 0) (py_datetime 2024 1 15 23 0 0 0) = Inr (Some 25200)"
    by (simp add: countdown_defs evaluation)
  have b: "native_value NextLowTariffCountdown (returns night_low) (stored ())
       (py_datetime 2024 1 15 23 0 0 0) (py_datetime 2024 1 15 23 0 0 0) = Inr None"
    by (simp add: countdown_defs evaluation)
  show ?thesis
    using a b
      formatted_time_decomposes[where k = LowTariffRemaining and parser = "returns night_low"
        and self = "stored ()" and clock = "py_datetime 2024 1 15 23 0 0 0"
        and now = "py_datetime 2024 1 15 23 0 0 0" and v = 25200]
      formatted_time_decomposes[where k = NextLowTariffCountdown and parser = "returns night_low"
        and self = "stored ()" and clock = "py_datetime 2024 1 15 23 0 0 0"
        and now = "py_datetime 2024 1 15 23 0 0 0" and v = 0]
    by simp
qed



section \<open>The tuple of \<open>_get_hdo_data\<close>\<close>










end
